theory Spec2Isabelle
  imports Main
begin

section \<open>The TDD tool functions of \<open>agent_comm/tools/tdd_tools.py\<close>\<close>

text \<open>
  The module offers two file writers (\<open>write_test_file\<close>, \<open>write_code_file\<close>), the
  directory provisioner \<open>_ensure_dirs\<close> they call first, and the shell wrapper
  \<open>run_shell_command\<close>. Everything they do goes through the operating system, so the
  embedding carries the operating system as data: a file system that the writers take and
  return, and the outcome of a spawned process that the shell wrapper is given.

  Conventions.
  \<^item> A Python \<open>str\<close> is a \<open>string\<close>; one list element stands for one Python character.
  \<^item> A Python exception is a value of \<open>py_exception\<close>; a function that may raise returns
    \<open>py_exception + 'a\<close>, with \<open>Inl\<close> for the exception that reaches the caller.
  \<^item> The result dictionaries have string keys and string values: \<open>string \<rightharpoonup> string\<close>.
  \<^item> Paths follow POSIX: the separator is \<open>/\<close>, text written in mode \<open>"w"\<close> is stored
    as it is, and symbolic links are not modelled.
  \<^item> The file's encoding can represent every character of a text.
  \<^item> \<open>print\<close> only writes to the console, which is not part of the modelled state, and
    is taken to succeed.
\<close>

subsection \<open>Exceptions\<close>

datatype py_exception =
    FileExistsError
  | FileNotFoundError
  | IsADirectoryError
  | NotADirectoryError
  | PermissionError
  | NoSpaceError
  | ValueError
  | UnicodeDecodeError
  | CalledProcessError int string string string
  | OtherError string

text \<open>
  \<open>NoSpaceError\<close> is the \<open>OSError\<close> of a write that the system refuses for its size
  (ENOSPC, EFBIG). \<open>UnicodeDecodeError\<close> is raised when captured bytes are not text.
  \<open>CalledProcessError returncode cmd output stderr\<close> carries the fields of the Python
  exception. \<open>OtherError\<close> stands for whatever else \<open>subprocess.run\<close> raises.
\<close>

fun is_OSError :: "py_exception \<Rightarrow> bool" where
  "is_OSError FileExistsError = True"
| "is_OSError FileNotFoundError = True"
| "is_OSError IsADirectoryError = True"
| "is_OSError NotADirectoryError = True"
| "is_OSError PermissionError = True"
| "is_OSError NoSpaceError = True"
| "is_OSError ValueError = False"
| "is_OSError UnicodeDecodeError = False"
| "is_OSError (CalledProcessError rc cmd out err) = False"
| "is_OSError (OtherError m) = False"

subsection \<open>The file system\<close>

text \<open>
  A location is the list of directory entries from the root; the root itself is \<open>[]\<close> and
  is always a directory. Every other location holds a directory, a regular file with its
  text, or nothing. \<open>denied\<close> lists the locations where the operating system refuses to
  create an entry or to open one for writing (permissions, a read-only mount, a name it
  rejects); \<open>capacity\<close> gives, where there is a bound, the largest size that a file at
  the location may reach (the free space of its device, the file-size limit of the
  process).
\<close>

type_synonym location = "string list"

datatype node = Dir | File string

record filesystem =
  cwd :: location
  nodes :: "location \<rightharpoonup> node"
  denied :: "location set"
  capacity :: "location \<Rightarrow> nat option"

definition node_at :: "filesystem \<Rightarrow> location \<Rightarrow> node option" where
  "node_at w loc = (if loc = [] then Some Dir else nodes w loc)"

text \<open>A file of \<open>n\<close> characters at the location is within the bound, if there is one.\<close>

definition fits :: "filesystem \<Rightarrow> location \<Rightarrow> nat \<Rightarrow> bool" where
  "fits w loc n = (case capacity w loc of None \<Rightarrow> True | Some k \<Rightarrow> n \<le> k)"

text \<open>\<open>split_sep p\<close> is Python's \<open>p.split("/")\<close>.\<close>

fun split_sep :: "string \<Rightarrow> string list" where
  "split_sep [] = [[]]"
| "split_sep (c # cs) =
     (if c = CHR ''/'' then [] # split_sep cs
      else (case split_sep cs of [] \<Rightarrow> [[c]] | h # t \<Rightarrow> (c # h) # t))"

text \<open>
  \<open>walk w cur cs\<close> follows the components \<open>cs\<close> from the directory \<open>cur\<close>, each of
  which has to name a directory. An empty component (a doubled separator) and \<open>.\<close> stay
  where they are, \<open>..\<close> goes to the parent.
\<close>

fun walk :: "filesystem \<Rightarrow> location \<Rightarrow> string list \<Rightarrow> py_exception + location" where
  "walk w cur [] = Inr cur"
| "walk w cur (c # cs) =
     (if c = [] \<or> c = ''.'' then walk w cur cs
      else if c = ''..'' then walk w (butlast cur) cs
      else (case node_at w (cur @ [c]) of
              None \<Rightarrow> Inl FileNotFoundError
            | Some (File x) \<Rightarrow> Inl NotADirectoryError
            | Some Dir \<Rightarrow> walk w (cur @ [c]) cs))"

definition is_absolute :: "string \<Rightarrow> bool" where
  "is_absolute p = (case p of [] \<Rightarrow> False | c # cs \<Rightarrow> c = CHR ''/'')"

text \<open>The components of a path without the empty ones that trailing separators leave.\<close>

definition strip_trailing :: "string list \<Rightarrow> string list" where
  "strip_trailing comps = rev (dropWhile (\<lambda>c. c = []) (rev comps))"

text \<open>
  \<open>resolve_entry w p\<close> is the location of the entry that the path \<open>p\<close> names in its
  parent directory, as \<open>open(p, "w")\<close> looks it up: the parent is reached by \<open>walk\<close>,
  from the root for an absolute path and from the working directory otherwise. A path
  with a NUL character is rejected by Python before the system is asked; the empty path
  names nothing. A path that ends in a separator asks for a directory: once the
  directories before its last name are found, the system answers that it is one (EISDIR),
  whatever that last name holds. A path whose last component is \<open>.\<close> or \<open>..\<close> names a
  directory and not an entry.
\<close>

definition resolve_entry :: "filesystem \<Rightarrow> string \<Rightarrow> py_exception + location" where
  "resolve_entry w p =
     (if CHR 0x00 \<in> set p then Inl ValueError
      else if p = [] then Inl FileNotFoundError
      else
        let comps = split_sep p;
            start = (if is_absolute p then [] else cwd w)
        in if node_at w start \<noteq> Some Dir then Inl FileNotFoundError
           else if last comps = [] then
             (case walk w start (butlast (strip_trailing comps)) of
                Inl e \<Rightarrow> Inl e
              | Inr parent \<Rightarrow> Inl IsADirectoryError)
           else (case walk w start (butlast comps) of
                   Inl e \<Rightarrow> Inl e
                 | Inr parent \<Rightarrow>
                     (if last comps = ''.'' \<or> last comps = ''..''
                      then Inl IsADirectoryError
                      else Inr (parent @ [last comps]))))"

text \<open>\<open>os.path.isdir\<close>: true when the path names an existing directory, false otherwise.\<close>

definition isdir :: "filesystem \<Rightarrow> string \<Rightarrow> bool" where
  "isdir w p = (case resolve_entry w p of
                  Inl e \<Rightarrow> False
                | Inr loc \<Rightarrow> node_at w loc = Some Dir)"

text \<open>\<open>os.mkdir\<close>: the entry must not exist and the system must allow its creation.\<close>

definition mkdir :: "filesystem \<Rightarrow> string \<Rightarrow> py_exception + filesystem" where
  "mkdir w p =
     (case resolve_entry w p of
        Inl e \<Rightarrow> Inl e
      | Inr loc \<Rightarrow>
          if node_at w loc \<noteq> None then Inl FileExistsError
          else if loc \<in> denied w then Inl PermissionError
          else Inr (w\<lparr>nodes := (nodes w)(loc \<mapsto> Dir)\<rparr>))"

text \<open>
  \<open>os.makedirs(name, exist_ok=True)\<close> for a name of one component, as both directory
  constants of the module are: the library has no parent to create first, calls
  \<open>mkdir\<close>, and on an \<open>OSError\<close> raises it again unless the name is a directory by then.
\<close>

definition makedirs_exist_ok :: "filesystem \<Rightarrow> string \<Rightarrow> py_exception + filesystem" where
  "makedirs_exist_ok w name =
     (case mkdir w name of
        Inr w' \<Rightarrow> Inr w'
      | Inl e \<Rightarrow> if is_OSError e \<and> isdir w name then Inr w else Inl e)"

text \<open>
  An open file is the location of the file and the position of the next write.
  \<open>open(path, "w")\<close> creates the file or empties the one that is there, and hands back the
  open file at position 0.
\<close>

type_synonym open_file = "location \<times> nat"

definition open_w :: "filesystem \<Rightarrow> string \<Rightarrow> py_exception + (filesystem \<times> open_file)" where
  "open_w w p =
     (case resolve_entry w p of
        Inl e \<Rightarrow> Inl e
      | Inr loc \<Rightarrow>
          if node_at w loc = Some Dir then Inl IsADirectoryError
          else if loc \<in> denied w then Inl PermissionError
          else Inr (w\<lparr>nodes := (nodes w)(loc \<mapsto> File [])\<rparr>, (loc, 0)))"

text \<open>
  A write puts the data over what the file holds from the given position on, and keeps
  the rest: what is before the position (filled with NUL if the file ends earlier) and
  what is behind the data.
\<close>

definition overwrite_at :: "string \<Rightarrow> nat \<Rightarrow> string \<Rightarrow> string" where
  "overwrite_at old pos data =
     take pos old @ replicate (pos - length old) (CHR 0x00) @ data
       @ drop (pos + length data) old"

text \<open>
  \<open>f.write(text)\<close> followed by the close that ends the \<open>with\<close> block: the text goes
  into the file that \<open>open\<close> left, at the position of the open file. When the file would
  grow beyond what the system allows, the data cannot be flushed and the \<open>OSError\<close>
  leaves the block. An open file always has its file; for a location without one the
  model fails as a write to a closed file does.
\<close>

definition write_close :: "filesystem \<Rightarrow> open_file \<Rightarrow> string \<Rightarrow> py_exception + filesystem" where
  "write_close w f text =
     (case nodes w (fst f) of
        Some (File old) \<Rightarrow>
          let new = overwrite_at old (snd f) text
          in if fits w (fst f) (length new)
             then Inr (w\<lparr>nodes := (nodes w)(fst f \<mapsto> File new)\<rparr>)
             else Inl NoSpaceError
      | Some Dir \<Rightarrow> Inl ValueError
      | None \<Rightarrow> Inl ValueError)"


text \<open>\<open>os.path.join(a, b)\<close> of \<open>posixpath\<close>, for two arguments.\<close>

definition path_join :: "string \<Rightarrow> string \<Rightarrow> string" where
  "path_join a b =
     (if is_absolute b then b
      else if a = [] \<or> last a = CHR ''/'' then a @ b
      else a @ ''/'' @ b)"

subsection \<open>The module\<close>

definition CODE_BASE_DIR :: string where
  "CODE_BASE_DIR = ''simulated_codebase''"

definition TEST_BASE_DIR :: string where
  "TEST_BASE_DIR = ''simulated_tests''"

text \<open>\<open>_ensure_dirs\<close> (an Isabelle name cannot start with an underscore).\<close>

definition ensure_dirs :: "filesystem \<Rightarrow> py_exception + filesystem" where
  "ensure_dirs w =
     (case makedirs_exist_ok w CODE_BASE_DIR of
        Inl e \<Rightarrow> Inl e
      | Inr w1 \<Rightarrow> makedirs_exist_ok w1 TEST_BASE_DIR)"

type_synonym result = "string \<rightharpoonup> string"

definition write_test_file ::
  "filesystem \<Rightarrow> string \<Rightarrow> string \<Rightarrow> py_exception + (filesystem \<times> result)" where
  "write_test_file w test_name test_content =
     (case ensure_dirs w of
        Inl e \<Rightarrow> Inl e
      | Inr w1 \<Rightarrow>
          let file_path = path_join TEST_BASE_DIR test_name
          in (case open_w w1 file_path of
                Inl e \<Rightarrow> Inl e
              | Inr (w2, f) \<Rightarrow>
                  (case write_close w2 f test_content of
                     Inl e \<Rightarrow> Inl e
                   | Inr w3 \<Rightarrow>
                       Inr (w3, [''status'' \<mapsto> ''success'',
                                 ''file_path'' \<mapsto> file_path,
                                 ''content_preview'' \<mapsto> take 100 test_content]))))"

definition write_code_file ::
  "filesystem \<Rightarrow> string \<Rightarrow> string \<Rightarrow> py_exception + (filesystem \<times> result)" where
  "write_code_file w module_name code_content =
     (case ensure_dirs w of
        Inl e \<Rightarrow> Inl e
      | Inr w1 \<Rightarrow>
          let file_path = path_join CODE_BASE_DIR module_name
          in (case open_w w1 file_path of
                Inl e \<Rightarrow> Inl e
              | Inr (w2, f) \<Rightarrow>
                  (case write_close w2 f code_content of
                     Inl e \<Rightarrow> Inl e
                   | Inr w3 \<Rightarrow>
                       Inr (w3, [''status'' \<mapsto> ''success'',
                                 ''file_path'' \<mapsto> file_path,
                                 ''content_preview'' \<mapsto> take 100 code_content]))))"

subsection \<open>Running a shell command\<close>

text \<open>
  \<open>subprocess.run(command, shell=True, capture_output=True, text=True, check=True)\<close>
  starts the shell, waits for it and collects the bytes of both streams. What the process
  does is not the module's: the model is given it as a \<open>shell\<close>, which for a command
  either raises (the shell cannot be started, the command holds a NUL) or yields the
  return code of the process with the bytes it wrote to its output and to its error
  stream. A byte is a \<open>char\<close>.
\<close>

type_synonym bytes = "char list"

type_synonym shell = "string \<Rightarrow> py_exception + (int \<times> bytes \<times> bytes)"

text \<open>
  With \<open>text=True\<close> the library turns the bytes of each stream into text: it decodes
  them with the encoding of the locale, errors being strict, and then replaces CR LF
  and CR by LF. The encoding is the platform's and is taken as the parameter
  \<open>decode\<close>, which gives no text for bytes that the encoding does not have.
\<close>

type_synonym codec = "bytes \<Rightarrow> string option"

fun translate_newlines :: "string \<Rightarrow> string" where
  "translate_newlines (c # d # cs) =
     (if c = CHR 0x0D \<and> d = CHR 0x0A then CHR 0x0A # translate_newlines cs
      else if c = CHR 0x0D then CHR 0x0A # translate_newlines (d # cs)
      else c # translate_newlines (d # cs))"
| "translate_newlines [c] = (if c = CHR 0x0D then [CHR 0x0A] else [c])"
| "translate_newlines [] = []"

definition text_of :: "codec \<Rightarrow> bytes \<Rightarrow> py_exception + string" where
  "text_of decode data =
     (case decode data of
        None \<Rightarrow> Inl UnicodeDecodeError
      | Some t \<Rightarrow> Inr (translate_newlines t))"

text \<open>
  The library makes the text of the output stream first, then of the error stream, and
  only then looks at the return code: with \<open>check=True\<close> a return code other than zero
  is raised as \<open>CalledProcessError\<close>, which carries both texts.
\<close>

record completed_process =
  args :: string
  returncode :: int
  stdout :: string
  stderr :: string

definition subprocess_run ::
  "codec \<Rightarrow> shell \<Rightarrow> string \<Rightarrow> py_exception + completed_process" where
  "subprocess_run decode sh command =
     (case sh command of
        Inl e \<Rightarrow> Inl e
      | Inr (retcode, out_bytes, err_bytes) \<Rightarrow>
          (case text_of decode out_bytes of
             Inl e \<Rightarrow> Inl e
           | Inr out \<Rightarrow>
               (case text_of decode err_bytes of
                  Inl e \<Rightarrow> Inl e
                | Inr err \<Rightarrow>
                    if retcode \<noteq> 0 then Inl (CalledProcessError retcode command out err)
                    else Inr \<lparr>args = command, returncode = retcode,
                               stdout = out, stderr = err\<rparr>)))"

text \<open>Decimal digits of a natural number, and Python's \<open>"%d"\<close> of an integer.\<close>

fun str_nat :: "nat \<Rightarrow> string" where
  "str_nat n =
     (if n < 10 then [''0123456789'' ! n]
      else str_nat (n div 10) @ [''0123456789'' ! (n mod 10)])"

declare str_nat.simps [simp del]

definition str_int :: "int \<Rightarrow> string" where
  "str_int i = (if i < 0 then CHR ''-'' # str_nat (nat (- i)) else str_nat (nat i))"

text \<open>
  \<open>str(e)\<close> of a \<open>CalledProcessError\<close>. A negative return code is the number of the
  signal that ended the process; the names of the signals are a table of the platform,
  taken as the parameter \<open>signals\<close> (the \<open>repr\<close> of the signal where it has a name).
\<close>

definition str_CalledProcessError :: "(nat \<Rightarrow> string option) \<Rightarrow> int \<Rightarrow> string \<Rightarrow> string" where
  "str_CalledProcessError signals rc cmd =
     (if rc \<noteq> 0 \<and> rc < 0 then
        (case signals (nat (- rc)) of
           Some name \<Rightarrow> ''Command '' @ [CHR 0x27] @ cmd @ [CHR 0x27] @ '' died with '' @ name @ ''.''
         | None \<Rightarrow> ''Command '' @ [CHR 0x27] @ cmd @ [CHR 0x27]
                     @ '' died with unknown signal '' @ str_int (- rc) @ ''.'')
      else ''Command '' @ [CHR 0x27] @ cmd @ [CHR 0x27]
             @ '' returned non-zero exit status '' @ str_int rc @ ''.'')"

definition run_shell_command ::
  "(nat \<Rightarrow> string option) \<Rightarrow> codec \<Rightarrow> shell \<Rightarrow> string \<Rightarrow> py_exception + result" where
  "run_shell_command signals decode sh command =
     (case subprocess_run decode sh command of
        Inr result \<Rightarrow>
          Inr [''status'' \<mapsto> ''success'',
               ''command'' \<mapsto> command,
               ''stdout'' \<mapsto> stdout result,
               ''stderr'' \<mapsto> stderr result]
      | Inl (CalledProcessError rc cmd out err) \<Rightarrow>
          Inr [''status'' \<mapsto> ''failed'',
               ''command'' \<mapsto> command,
               ''stdout'' \<mapsto> out,
               ''stderr'' \<mapsto> err,
               ''error'' \<mapsto> str_CalledProcessError signals rc cmd]
      | Inl e \<Rightarrow> Inl e)"

fun is_CalledProcessError :: "py_exception \<Rightarrow> bool" where
  "is_CalledProcessError (CalledProcessError rc cmd out err) = True"
| "is_CalledProcessError e = False"


subsection \<open>Notions used to state the properties\<close>

text \<open>
  A plain name is one path component that names an entry: not empty, free of separators
  and NUL, and neither \<open>.\<close> nor \<open>..\<close>.
\<close>

definition plain :: "string \<Rightarrow> bool" where
  "plain n = (n \<noteq> [] \<and> CHR ''/'' \<notin> set n \<and> CHR 0x00 \<notin> set n \<and> n \<noteq> ''.'' \<and> n \<noteq> ''..'')"

text \<open>
  The directory \<open>d\<close> of the working directory can be provided: it is there, or nothing
  is there and the system lets it be created.
\<close>

definition creatable :: "filesystem \<Rightarrow> string \<Rightarrow> bool" where
  "creatable w d =
     (nodes w (cwd w @ [d]) = Some Dir
      \<or> (nodes w (cwd w @ [d]) = None \<and> cwd w @ [d] \<notin> denied w))"

definition creation_permitted :: "filesystem \<Rightarrow> bool" where
  "creation_permitted w =
     (node_at w (cwd w) = Some Dir \<and> creatable w CODE_BASE_DIR \<and> creatable w TEST_BASE_DIR)"

text \<open>The file system with both directories in place, and with a text stored in a file.\<close>

definition provisioned :: "filesystem \<Rightarrow> filesystem" where
  "provisioned w =
     w\<lparr>nodes := (nodes w)(cwd w @ [CODE_BASE_DIR] \<mapsto> Dir, cwd w @ [TEST_BASE_DIR] \<mapsto> Dir)\<rparr>"

definition store :: "filesystem \<Rightarrow> location \<Rightarrow> string \<Rightarrow> filesystem" where
  "store w f text = w\<lparr>nodes := (nodes w)(f \<mapsto> File text)\<rparr>"

text \<open>
  The file \<open>n\<close> of the directory \<open>d\<close> can be written with \<open>content\<close>: the directories
  can be provided, the file's place holds no directory, the system lets the file be
  opened, and a file of the size of the content is within the bound of the place.
\<close>

definition write_permitted :: "string \<Rightarrow> filesystem \<Rightarrow> string \<Rightarrow> string \<Rightarrow> bool" where
  "write_permitted d w n content =
     (creation_permitted w
      \<and> nodes w (cwd w @ [d, n]) \<noteq> Some Dir
      \<and> cwd w @ [d, n] \<notin> denied w
      \<and> fits w (cwd w @ [d, n]) (length content))"


text \<open>
  Both writers have the same body up to the directory; \<open>write_in d\<close> is that body, used
  to prove the properties of both at once.
\<close>

definition write_in ::
  "string \<Rightarrow> filesystem \<Rightarrow> string \<Rightarrow> string \<Rightarrow> py_exception + (filesystem \<times> result)" where
  "write_in d w name content =
     (case ensure_dirs w of
        Inl e \<Rightarrow> Inl e
      | Inr w1 \<Rightarrow>
          (case open_w w1 (path_join d name) of
             Inl e \<Rightarrow> Inl e
           | Inr (w2, f) \<Rightarrow>
               (case write_close w2 f content of
                  Inl e \<Rightarrow> Inl e
                | Inr w3 \<Rightarrow>
                    Inr (w3, [''status'' \<mapsto> ''success'',
                              ''file_path'' \<mapsto> path_join d name,
                              ''content_preview'' \<mapsto> take 100 content]))))"

text \<open>Calling \<open>_ensure_dirs\<close> \<open>k\<close> times in a row; an exception ends the sequence.\<close>

fun ensure_dirs_times :: "nat \<Rightarrow> filesystem \<Rightarrow> py_exception + filesystem" where
  "ensure_dirs_times 0 w = Inr w"
| "ensure_dirs_times (Suc k) w =
     (case ensure_dirs w of Inl e \<Rightarrow> Inl e | Inr w1 \<Rightarrow> ensure_dirs_times k w1)"



text \<open>
  File systems for the examples: \<open>fresh\<close> has the working directory \<open>/work\<close> and
  nothing in it; in \<open>locked\<close> the system refuses to create the code directory; in
  \<open>guarded\<close> both directories are there and the system refuses to open \<open>calc.py\<close> in
  either; in \<open>used\<close> both directories are there and the code directory has a
  \<open>calc.py\<close> already; \<open>bounded\<close> is \<open>fresh\<close> with a bound of five characters
  on \<open>calc.py\<close> in the test directory.
\<close>

definition fresh :: filesystem where
  "fresh = \<lparr>cwd = [''work''], nodes = [[''work''] \<mapsto> Dir], denied = {}, capacity = (\<lambda>loc. None)\<rparr>"

definition locked :: filesystem where
  "locked = \<lparr>cwd = [''work''], nodes = [[''work''] \<mapsto> Dir],
              denied = {[''work'', ''simulated_codebase'']}, capacity = (\<lambda>loc. None)\<rparr>"

definition guarded :: filesystem where
  "guarded = \<lparr>cwd = [''work''],
               nodes = [[''work''] \<mapsto> Dir,
                        [''work'', ''simulated_codebase''] \<mapsto> Dir,
                        [''work'', ''simulated_tests''] \<mapsto> Dir],
               denied = {[''work'', ''simulated_codebase'', ''calc.py''],
                         [''work'', ''simulated_tests'', ''calc.py'']},
               capacity = (\<lambda>loc. None)\<rparr>"

definition used :: filesystem where
  "used = \<lparr>cwd = [''work''],
            nodes = [[''work''] \<mapsto> Dir,
                     [''work'', ''simulated_codebase''] \<mapsto> Dir,
                     [''work'', ''simulated_tests''] \<mapsto> Dir,
                     [''work'', ''simulated_codebase'', ''calc.py''] \<mapsto> File ''answer = 42''],
            denied = {}, capacity = (\<lambda>loc. None)\<rparr>"

definition bounded :: filesystem where
  "bounded = \<lparr>cwd = [''work''], nodes = [[''work''] \<mapsto> Dir], denied = {},
               capacity = (\<lambda>loc. if loc = [''work'', ''simulated_tests'', ''calc.py'']
                                  then Some 5 else None)\<rparr>"






section \<open>Paths, directories and files\<close>

lemma split_sep_not_Nil: "split_sep p \<noteq> []"
  by (induction p) (auto split: list.splits)

lemma split_sep_no_sep: "CHR ''/'' \<notin> set a \<Longrightarrow> split_sep a = [a]"
  by (induction a) auto

lemma split_sep_append: "CHR ''/'' \<notin> set a \<Longrightarrow> split_sep (a @ CHR ''/'' # b) = a # split_sep b"
  by (induction a) auto

lemma is_absolute_plain: "plain n \<Longrightarrow> \<not> is_absolute n"
  by (cases n) (auto simp: plain_def is_absolute_def)

lemma resolve_entry_plain:
  assumes "plain n"
  shows "resolve_entry w n =
           (if node_at w (cwd w) = Some Dir then Inr (cwd w @ [n]) else Inl FileNotFoundError)"
  using assms is_absolute_plain [OF assms]
  by (simp add: resolve_entry_def split_sep_no_sep plain_def)






lemma mkdir_plain:
  assumes "plain d"
  shows "mkdir w d =
           (if node_at w (cwd w) \<noteq> Some Dir then Inl FileNotFoundError
            else if nodes w (cwd w @ [d]) \<noteq> None then Inl FileExistsError
            else if cwd w @ [d] \<in> denied w then Inl PermissionError
            else Inr (w\<lparr>nodes := (nodes w)(cwd w @ [d] \<mapsto> Dir)\<rparr>))"
  by (simp add: mkdir_def resolve_entry_plain [OF assms] node_at_def)

lemma isdir_plain:
  assumes "plain d"
  shows "isdir w d = (node_at w (cwd w) = Some Dir \<and> nodes w (cwd w @ [d]) = Some Dir)"
  by (simp add: isdir_def resolve_entry_plain [OF assms] node_at_def)

lemma makedirs_exist_ok_plain:
  assumes "plain d"
  shows "makedirs_exist_ok w d =
           (if node_at w (cwd w) \<noteq> Some Dir then Inl FileNotFoundError
            else if nodes w (cwd w @ [d]) = Some Dir then Inr w
            else if nodes w (cwd w @ [d]) \<noteq> None then Inl FileExistsError
            else if cwd w @ [d] \<in> denied w then Inl PermissionError
            else Inr (w\<lparr>nodes := (nodes w)(cwd w @ [d] \<mapsto> Dir)\<rparr>))"
  by (auto simp: makedirs_exist_ok_def mkdir_plain [OF assms] isdir_plain [OF assms])

lemma makedirs_exist_ok_Inr_iff:
  assumes "plain d"
  shows "makedirs_exist_ok w d = Inr w1 \<longleftrightarrow>
           node_at w (cwd w) = Some Dir \<and> creatable w d
           \<and> w1 = w\<lparr>nodes := (nodes w)(cwd w @ [d] \<mapsto> Dir)\<rparr>"
  by (auto simp: makedirs_exist_ok_plain [OF assms] creatable_def fun_upd_idem)

lemma plain_CODE: "plain CODE_BASE_DIR"
  by (simp add: plain_def CODE_BASE_DIR_def)

lemma plain_TEST: "plain TEST_BASE_DIR"
  by (simp add: plain_def TEST_BASE_DIR_def)

lemma CODE_neq_TEST: "CODE_BASE_DIR \<noteq> TEST_BASE_DIR"
  by (simp add: CODE_BASE_DIR_def TEST_BASE_DIR_def)

lemma creatable_after_makedirs:
  assumes "d \<noteq> d'"
  shows "creatable (w\<lparr>nodes := (nodes w)(cwd w @ [d] \<mapsto> Dir)\<rparr>) d' = creatable w d'"
  using assms by (simp add: creatable_def)

lemma ensure_dirs_Inr_iff:
  "ensure_dirs w = Inr w1 \<longleftrightarrow>
     node_at w (cwd w) = Some Dir \<and> creatable w CODE_BASE_DIR \<and> creatable w TEST_BASE_DIR
     \<and> w1 = provisioned w"
proof (cases "makedirs_exist_ok w CODE_BASE_DIR")
  case (Inl e)
  then have "\<not> (node_at w (cwd w) = Some Dir \<and> creatable w CODE_BASE_DIR)"
    using makedirs_exist_ok_Inr_iff [OF plain_CODE, of w] by auto
  with Inl show ?thesis by (auto simp: ensure_dirs_def)
next
  case (Inr wm)
  then have c: "node_at w (cwd w) = Some Dir" "creatable w CODE_BASE_DIR"
    and wm: "wm = w\<lparr>nodes := (nodes w)(cwd w @ [CODE_BASE_DIR] \<mapsto> Dir)\<rparr>"
    by (simp_all add: makedirs_exist_ok_Inr_iff [OF plain_CODE])
  have cw: "node_at wm (cwd wm) = Some Dir"
    using c(1) by (auto simp: wm node_at_def split: if_splits)
  have ct: "creatable wm TEST_BASE_DIR = creatable w TEST_BASE_DIR"
    unfolding wm by (rule creatable_after_makedirs [OF CODE_neq_TEST])
  have "ensure_dirs w = makedirs_exist_ok wm TEST_BASE_DIR"
    by (simp add: ensure_dirs_def Inr)
  then show ?thesis
    using c cw ct
    by (auto simp: makedirs_exist_ok_Inr_iff [OF plain_TEST] provisioned_def wm)
qed

lemma write_test_file_eq: "write_test_file w n c = write_in TEST_BASE_DIR w n c"
  by (simp add: write_test_file_def write_in_def Let_def split: sum.splits)

lemma write_code_file_eq: "write_code_file w n c = write_in CODE_BASE_DIR w n c"
  by (simp add: write_code_file_def write_in_def Let_def split: sum.splits)

lemma open_w_Inr_iff:
  "open_w w p = Inr (w2, h) \<longleftrightarrow>
     (\<exists>f. resolve_entry w p = Inr f \<and> node_at w f \<noteq> Some Dir \<and> f \<notin> denied w
        \<and> w2 = store w f [] \<and> h = (f, 0))"
  by (auto simp: open_w_def store_def split: sum.splits)

lemma open_w_resolved:
  assumes "resolve_entry w p = Inr f"
  shows "open_w w p =
           (if node_at w f = Some Dir then Inl IsADirectoryError
            else if f \<in> denied w then Inl PermissionError
            else Inr (store w f [], (f, 0)))"
  using assms by (simp add: open_w_def store_def)

lemma overwrite_at_empty: "overwrite_at [] 0 data = data"
  by (simp add: overwrite_at_def)



text \<open>Writing through the file that \<open>open\<close> has just left empty stores the text.\<close>

lemma write_close_after_open:
  "write_close (store w f []) (f, 0) data =
     (if fits w f (length data) then Inr (store w f data) else Inl NoSpaceError)"
  by (simp add: write_close_def store_def overwrite_at_empty fits_def)

lemma write_in_Inr_iff:
  "write_in d w name content = Inr (w', r) \<longleftrightarrow>
     (\<exists>w1 f. ensure_dirs w = Inr w1
        \<and> resolve_entry w1 (path_join d name) = Inr f
        \<and> node_at w1 f \<noteq> Some Dir \<and> f \<notin> denied w1
        \<and> fits w1 f (length content)
        \<and> w' = store w1 f content)
     \<and> r = [''status'' \<mapsto> ''success'',
             ''file_path'' \<mapsto> path_join d name,
             ''content_preview'' \<mapsto> take 100 content]"
proof (cases "ensure_dirs w")
  case (Inl e)
  then show ?thesis by (simp add: write_in_def)
next
  case (Inr w1)
  show ?thesis
  proof (cases "resolve_entry w1 (path_join d name)")
    case (Inl e)
    then have "open_w w1 (path_join d name) = Inl e" by (simp add: open_w_def)
    with Inl \<open>ensure_dirs w = Inr w1\<close> show ?thesis
      by (simp add: write_in_def)
  next
    case f: (Inr f)
    show ?thesis
      using \<open>ensure_dirs w = Inr w1\<close> f
      by (auto simp: write_in_def open_w_resolved [OF f] write_close_after_open)
  qed
qed

lemma path_join_plain:
  assumes "plain d"
  shows "path_join d n = (if is_absolute n then n else d @ ''/'' @ n)"
proof -
  from assms have "d \<noteq> []" and "CHR ''/'' \<notin> set d"
    by (auto simp: plain_def)
  moreover from this have "last d \<noteq> CHR ''/''"
    by (metis last_in_set)
  ultimately have "d \<noteq> []" and "last d \<noteq> CHR ''/''" by simp_all
  then show ?thesis by (simp add: path_join_def)
qed

lemma resolve_entry_in_dir:
  assumes "plain d" and "plain n"
    and "node_at w (cwd w) = Some Dir" and "nodes w (cwd w @ [d]) = Some Dir"
  shows "resolve_entry w (d @ ''/'' @ n) = Inr (cwd w @ [d, n])"
proof -
  from assms(1,2) have sp: "split_sep (d @ ''/'' @ n) = [d, n]"
    by (simp add: plain_def split_sep_append split_sep_no_sep)
  from assms(1) have ab: "\<not> is_absolute (d @ ''/'' @ n)"
    by (cases d) (auto simp: plain_def is_absolute_def)
  from assms(1,2) have nz: "CHR 0x00 \<notin> set (d @ ''/'' @ n)"
    by (auto simp: plain_def)
  from assms(1) have dd: "d \<noteq> []" "d \<noteq> ''.''" "d \<noteq> ''..''" by (auto simp: plain_def)
  from assms(2) have nn: "n \<noteq> []" "n \<noteq> ''.''" "n \<noteq> ''..''" by (auto simp: plain_def)
  have wk: "walk w (cwd w) [d] = Inr (cwd w @ [d])"
    using dd assms(4) by (simp add: node_at_def)
  show ?thesis
    unfolding resolve_entry_def Let_def sp
    using ab nz assms(3) wk nn by simp
qed

lemma provisioned_fields:
  "cwd (provisioned w) = cwd w" "denied (provisioned w) = denied w"
  "capacity (provisioned w) = capacity w" "fits (provisioned w) = fits w"
  by (simp_all add: provisioned_def fits_def fun_eq_iff)

lemma provisioned_dirs:
  "nodes (provisioned w) (cwd w @ [CODE_BASE_DIR]) = Some Dir"
  "nodes (provisioned w) (cwd w @ [TEST_BASE_DIR]) = Some Dir"
  by (simp_all add: provisioned_def)

lemma provisioned_cwd:
  "node_at w (cwd w) = Some Dir \<Longrightarrow> node_at (provisioned w) (cwd w) = Some Dir"
  by (auto simp: provisioned_def node_at_def split: if_splits)

lemma provisioned_entry: "nodes (provisioned w) (cwd w @ [d, n]) = nodes w (cwd w @ [d, n])"
  by (simp add: provisioned_def)

lemma ensure_dirs_permitted:
  "creation_permitted w \<Longrightarrow> ensure_dirs w = Inr (provisioned w)"
  by (simp add: ensure_dirs_Inr_iff creation_permitted_def)

lemma ensure_dirs_Inr_permitted:
  "ensure_dirs w = Inr w1 \<Longrightarrow> creation_permitted w \<and> w1 = provisioned w"
  by (simp add: ensure_dirs_Inr_iff creation_permitted_def)

lemma creation_permitted_provisioned:
  assumes "creation_permitted w"
  shows "creation_permitted (provisioned w)"
  using assms
  by (auto simp: creation_permitted_def creatable_def provisioned_fields provisioned_dirs
      provisioned_cwd)

lemma provisioned_idem: "provisioned (provisioned w) = provisioned w"
  by (simp add: provisioned_def)

lemma ensure_dirs_again:
  assumes "ensure_dirs w = Inr w1"
  shows "ensure_dirs w1 = Inr w1"
proof -
  from assms have p: "creation_permitted w" and w1: "w1 = provisioned w"
    by (simp_all add: ensure_dirs_Inr_permitted)
  from ensure_dirs_permitted [OF creation_permitted_provisioned [OF p]]
  show ?thesis by (simp add: w1 provisioned_idem)
qed


lemma write_in_eval:
  assumes "ensure_dirs w = Inr w1"
    and "resolve_entry w1 (path_join d name) = Inr f"
    and "node_at w1 f \<noteq> Some Dir" and "f \<notin> denied w1"
  shows "write_in d w name content =
           (if fits w1 f (length content)
            then Inr (store w1 f content,
                      [''status'' \<mapsto> ''success'',
                       ''file_path'' \<mapsto> path_join d name,
                       ''content_preview'' \<mapsto> take 100 content])
            else Inl NoSpaceError)"
  using assms
  by (simp add: write_in_def open_w_resolved [OF assms(2)] write_close_after_open)

lemma write_in_returns:
  assumes d: "d = CODE_BASE_DIR \<or> d = TEST_BASE_DIR" and n: "plain n"
    and p: "write_permitted d w n content"
  shows "write_in d w n content =
           Inr (store (provisioned w) (cwd w @ [d, n]) content,
                [''status'' \<mapsto> ''success'',
                 ''file_path'' \<mapsto> d @ ''/'' @ n,
                 ''content_preview'' \<mapsto> take 100 content])"
proof -
  from d have pd: "plain d" using plain_CODE plain_TEST by auto
  from p have cp: "creation_permitted w" by (simp add: write_permitted_def)
  have pj: "path_join d n = d @ ''/'' @ n"
    using is_absolute_plain [OF n] by (simp add: path_join_plain [OF pd])
  have e: "ensure_dirs w = Inr (provisioned w)"
    by (rule ensure_dirs_permitted [OF cp])
  have dd: "nodes (provisioned w) (cwd (provisioned w) @ [d]) = Some Dir"
    using d provisioned_dirs [of w] by (auto simp: provisioned_fields)
  have cw: "node_at (provisioned w) (cwd (provisioned w)) = Some Dir"
    using cp by (simp add: creation_permitted_def provisioned_cwd provisioned_fields)
  have r: "resolve_entry (provisioned w) (path_join d n) = Inr (cwd w @ [d, n])"
    using resolve_entry_in_dir [OF pd n cw dd] by (simp add: pj provisioned_fields)
  have nd: "node_at (provisioned w) (cwd w @ [d, n]) \<noteq> Some Dir"
    using p by (simp add: node_at_def provisioned_entry write_permitted_def)
  have dn: "cwd w @ [d, n] \<notin> denied (provisioned w)"
    using p by (simp add: provisioned_fields write_permitted_def)
  have fl: "fits (provisioned w) (cwd w @ [d, n]) (length content)"
    using p by (simp add: provisioned_fields write_permitted_def)
  from write_in_eval [OF e r nd dn, of content] fl show ?thesis
    by (auto simp: pj)
qed

lemma write_in_result:
  assumes "write_in d w n content = Inr (w', r)"
  shows "r = [''status'' \<mapsto> ''success'',
              ''file_path'' \<mapsto> path_join d n,
              ''content_preview'' \<mapsto> take 100 content]"
  using assms by (simp add: write_in_Inr_iff)





lemma write_in_raises_ensure_dirs:
  "ensure_dirs w = Inl e \<Longrightarrow> write_in d w n content = Inl e"
  by (simp add: write_in_def)

lemma write_in_raises_open:
  "ensure_dirs w = Inr w1 \<Longrightarrow> open_w w1 (path_join d n) = Inl e
     \<Longrightarrow> write_in d w n content = Inl e"
  by (simp add: write_in_def)

lemma write_in_raises_write:
  "ensure_dirs w = Inr w1 \<Longrightarrow> open_w w1 (path_join d n) = Inr (w2, h)
     \<Longrightarrow> write_close w2 h content = Inl e
     \<Longrightarrow> write_in d w n content = Inl e"
  by (simp add: write_in_def)

lemma write_test_file_returns:
  assumes "plain n" and "write_permitted TEST_BASE_DIR w n content"
  shows "write_test_file w n content =
           Inr (store (provisioned w) (cwd w @ [TEST_BASE_DIR, n]) content,
                [''status'' \<mapsto> ''success'',
                 ''file_path'' \<mapsto> TEST_BASE_DIR @ ''/'' @ n,
                 ''content_preview'' \<mapsto> take 100 content])"
  using write_in_returns [OF _ assms] by (simp add: write_test_file_eq)

lemma write_code_file_returns:
  assumes "plain n" and "write_permitted CODE_BASE_DIR w n content"
  shows "write_code_file w n content =
           Inr (store (provisioned w) (cwd w @ [CODE_BASE_DIR, n]) content,
                [''status'' \<mapsto> ''success'',
                 ''file_path'' \<mapsto> CODE_BASE_DIR @ ''/'' @ n,
                 ''content_preview'' \<mapsto> take 100 content])"
  using write_in_returns [OF _ assms] by (simp add: write_code_file_eq)

lemma fresh_permits: "write_permitted d fresh n content"
  by (simp add: write_permitted_def creation_permitted_def creatable_def node_at_def fits_def
      fresh_def CODE_BASE_DIR_def TEST_BASE_DIR_def)

lemma used_permits: "write_permitted CODE_BASE_DIR used ''calc.py'' content"
  by (simp add: write_permitted_def creation_permitted_def creatable_def node_at_def fits_def
      used_def CODE_BASE_DIR_def TEST_BASE_DIR_def)

lemma plain_calc: "plain ''calc.py''"
  by (simp add: plain_def)

lemma plain_test_calc: "plain ''test_calc.py''"
  by (simp add: plain_def)

lemma ensure_dirs_times_fixed:
  "ensure_dirs w = Inr w \<Longrightarrow> ensure_dirs_times k w = Inr w"
  by (induction k) simp_all

lemma ensure_dirs_times_once:
  assumes "ensure_dirs w = Inr w1"
  shows "ensure_dirs_times (Suc k) w = Inr w1"
  using assms ensure_dirs_times_fixed [OF ensure_dirs_again [OF assms]] by simp

lemma ensure_dirs_present:
  assumes "isdir w CODE_BASE_DIR" and "isdir w TEST_BASE_DIR"
  shows "ensure_dirs w = Inr w"
proof -
  from assms have c: "node_at w (cwd w) = Some Dir"
    "nodes w (cwd w @ [CODE_BASE_DIR]) = Some Dir" "nodes w (cwd w @ [TEST_BASE_DIR]) = Some Dir"
    by (simp_all add: isdir_plain [OF plain_CODE] isdir_plain [OF plain_TEST])
  then have "creation_permitted w" by (simp add: creation_permitted_def creatable_def)
  moreover from c have "provisioned w = w" by (simp add: provisioned_def fun_upd_idem)
  ultimately show ?thesis using ensure_dirs_permitted [of w] by simp
qed



subsection \<open>The example file systems\<close>


lemma fresh_creation_permitted: "creation_permitted fresh"
  using fresh_permits [of CODE_BASE_DIR "[]" "[]"] by (simp add: write_permitted_def)

lemma isdir_provisioned_fresh:
  "isdir (provisioned fresh) CODE_BASE_DIR" "isdir (provisioned fresh) TEST_BASE_DIR"
  by (simp_all add: isdir_plain [OF plain_CODE] isdir_plain [OF plain_TEST] provisioned_def
      fresh_def node_at_def)







lemma ensure_dirs_locked: "ensure_dirs locked = Inl PermissionError"
proof -
  have "makedirs_exist_ok locked CODE_BASE_DIR = Inl PermissionError"
    by (subst makedirs_exist_ok_plain [OF plain_CODE])
       (simp add: locked_def node_at_def CODE_BASE_DIR_def)
  then show ?thesis by (simp add: ensure_dirs_def)
qed

lemma guarded_dirs:
  "node_at guarded (cwd guarded) = Some Dir"
  "nodes guarded (cwd guarded @ [TEST_BASE_DIR]) = Some Dir"
  "nodes guarded (cwd guarded @ [CODE_BASE_DIR]) = Some Dir"
  by (simp_all add: guarded_def node_at_def CODE_BASE_DIR_def TEST_BASE_DIR_def)

lemma ensure_dirs_guarded: "ensure_dirs guarded = Inr guarded"
proof (rule ensure_dirs_present)
  show "isdir guarded CODE_BASE_DIR"
    by (subst isdir_plain [OF plain_CODE]) (simp add: guarded_dirs)
  show "isdir guarded TEST_BASE_DIR"
    by (subst isdir_plain [OF plain_TEST]) (simp add: guarded_dirs)
qed

lemma open_w_denied:
  assumes "resolve_entry w p = Inr f" and "node_at w f \<noteq> Some Dir" and "f \<in> denied w"
  shows "open_w w p = Inl PermissionError"
  using assms by (simp add: open_w_def)

lemma open_w_guarded:
  "open_w guarded (path_join TEST_BASE_DIR ''calc.py'') = Inl PermissionError"
  "open_w guarded (path_join CODE_BASE_DIR ''calc.py'') = Inl PermissionError"
proof -
  have pt: "path_join TEST_BASE_DIR ''calc.py'' = TEST_BASE_DIR @ ''/'' @ ''calc.py''"
    and pc: "path_join CODE_BASE_DIR ''calc.py'' = CODE_BASE_DIR @ ''/'' @ ''calc.py''"
    using is_absolute_plain [OF plain_calc]
    by (simp_all add: path_join_plain [OF plain_TEST] path_join_plain [OF plain_CODE])
  have nt: "node_at guarded (cwd guarded @ [TEST_BASE_DIR, ''calc.py'']) \<noteq> Some Dir"
    and dt: "cwd guarded @ [TEST_BASE_DIR, ''calc.py''] \<in> denied guarded"
    and nc: "node_at guarded (cwd guarded @ [CODE_BASE_DIR, ''calc.py'']) \<noteq> Some Dir"
    and dc: "cwd guarded @ [CODE_BASE_DIR, ''calc.py''] \<in> denied guarded"
    by (simp_all add: guarded_def node_at_def CODE_BASE_DIR_def TEST_BASE_DIR_def)
  show "open_w guarded (path_join TEST_BASE_DIR ''calc.py'') = Inl PermissionError"
    unfolding pt
    by (rule open_w_denied
          [OF resolve_entry_in_dir [OF plain_TEST plain_calc guarded_dirs(1) guarded_dirs(2)] nt dt])
  show "open_w guarded (path_join CODE_BASE_DIR ''calc.py'') = Inl PermissionError"
    unfolding pc
    by (rule open_w_denied
          [OF resolve_entry_in_dir [OF plain_CODE plain_calc guarded_dirs(1) guarded_dirs(3)] nc dc])
qed








lemma bounded_permits:
  "length content \<le> 5 \<Longrightarrow> write_permitted TEST_BASE_DIR bounded ''calc.py'' content"
  by (simp add: write_permitted_def creation_permitted_def creatable_def node_at_def fits_def
      bounded_def CODE_BASE_DIR_def TEST_BASE_DIR_def)

text \<open>
  The size of the data decides: the bound of five characters lets \<open>a = 1\<close> through and
  refuses \<open>a = 10\<close>.
\<close>

lemma bounded_refuses:
  "write_test_file bounded ''calc.py'' ''a = 10'' = Inl NoSpaceError"
proof -
  have cp: "creation_permitted bounded"
    using bounded_permits [of "[]"] by (simp add: write_permitted_def)
  have r: "resolve_entry (provisioned bounded) (path_join TEST_BASE_DIR ''calc.py'')
             = Inr [''work'', ''simulated_tests'', ''calc.py'']"
    by (simp add: resolve_entry_def path_join_def is_absolute_def node_at_def provisioned_def
        bounded_def CODE_BASE_DIR_def TEST_BASE_DIR_def)
  have nd: "node_at (provisioned bounded) [''work'', ''simulated_tests'', ''calc.py''] \<noteq> Some Dir"
    and dn: "[''work'', ''simulated_tests'', ''calc.py''] \<notin> denied (provisioned bounded)"
    and nf: "\<not> fits (provisioned bounded) [''work'', ''simulated_tests'', ''calc.py'']
               (length ''a = 10'')"
    by (simp_all add: node_at_def provisioned_def fits_def bounded_def CODE_BASE_DIR_def
        TEST_BASE_DIR_def)
  show ?thesis
    unfolding write_test_file_eq write_in_eval [OF ensure_dirs_permitted [OF cp] r nd dn]
    using nf by simp
qed



section \<open>The directory provisioner\<close>

text \<open>
  C5. \<open>_ensure_dirs\<close> is idempotent. From every file system in which the two
  directories can be provided (each is there already, or is absent and may be created),
  the call succeeds, and \<open>k \<ge> 1\<close> calls in a row end in the same file system as one
  call. When both directories are there already, the call succeeds and changes nothing.
\<close>

theorem ensure_dirs_idempotent:
  "(creation_permitted w \<and> 1 \<le> k
      \<longrightarrow> (\<exists>w1. ensure_dirs w = Inr w1 \<and> ensure_dirs_times k w = Inr w1))
   \<and> (isdir w CODE_BASE_DIR \<and> isdir w TEST_BASE_DIR \<longrightarrow> ensure_dirs w = Inr w)"
proof (intro conjI impI)
  assume a: "creation_permitted w \<and> 1 \<le> k"
  then obtain j where k: "k = Suc j" by (cases k) auto
  from a have e: "ensure_dirs w = Inr (provisioned w)" by (simp add: ensure_dirs_permitted)
  from ensure_dirs_times_once [OF e, of j] e k
  show "\<exists>w1. ensure_dirs w = Inr w1 \<and> ensure_dirs_times k w = Inr w1" by simp
next
  assume "isdir w CODE_BASE_DIR \<and> isdir w TEST_BASE_DIR"
  then show "ensure_dirs w = Inr w" by (simp add: ensure_dirs_present)
qed

theorem ensure_dirs_idempotent_witness:
  "creation_permitted fresh \<and> (1::nat) \<le> 3
   \<and> nodes fresh [''work'', ''simulated_codebase''] = None
   \<and> nodes fresh [''work'', ''simulated_tests''] = None
   \<and> ensure_dirs fresh = Inr (provisioned fresh)
   \<and> ensure_dirs_times 3 fresh = Inr (provisioned fresh)
   \<and> isdir (provisioned fresh) CODE_BASE_DIR \<and> isdir (provisioned fresh) TEST_BASE_DIR
   \<and> ensure_dirs (provisioned fresh) = Inr (provisioned fresh)"
proof -
  have n: "nodes fresh [''work'', ''simulated_codebase''] = None"
    "nodes fresh [''work'', ''simulated_tests''] = None"
    by (simp_all add: fresh_def)
  have e: "ensure_dirs fresh = Inr (provisioned fresh)"
    by (rule ensure_dirs_permitted [OF fresh_creation_permitted])
  from ensure_dirs_idempotent [of fresh 3] fresh_creation_permitted e
  have t: "ensure_dirs_times 3 fresh = Inr (provisioned fresh)" by auto
  from ensure_dirs_idempotent [of "provisioned fresh" 1] isdir_provisioned_fresh
  have "ensure_dirs (provisioned fresh) = Inr (provisioned fresh)" by blast
  with n e t fresh_creation_permitted isdir_provisioned_fresh show ?thesis by simp
qed

section \<open>The file writers\<close>

text \<open>
  C2. Whenever \<open>write_test_file\<close> or \<open>write_code_file\<close> returns a result, its
  \<open>content_preview\<close> is the first 100 characters of the content, and it is the content
  itself when the content has at most 100 characters (the empty content included).
\<close>

theorem content_preview_is_first_100_characters:
  assumes "write_test_file w name content = Inr (w', r)
           \<or> write_code_file w name content = Inr (w', r)"
  shows "r ''content_preview'' = Some (take 100 content)
         \<and> (length content \<le> 100 \<longrightarrow> r ''content_preview'' = Some content)"
proof -
  from assms obtain d where "write_in d w name content = Inr (w', r)"
    by (auto simp: write_test_file_eq write_code_file_eq)
  from write_in_result [OF this] show ?thesis by simp
qed

theorem content_preview_is_first_100_characters_witness:
  "(\<exists>w' r. write_code_file fresh ''calc.py'' [] = Inr (w', r)
       \<and> length ([] :: string) \<le> 100 \<and> r ''content_preview'' = Some [])
   \<and> (\<exists>w' r. write_test_file fresh ''test_calc.py'' (replicate 150 CHR ''#'') = Inr (w', r)
       \<and> r ''content_preview'' = Some (replicate 100 CHR ''#''))"
proof -
  have a: "\<exists>w' r. write_code_file fresh ''calc.py'' [] = Inr (w', r)"
    by (simp add: write_code_file_returns [OF plain_calc fresh_permits])
  have b: "\<exists>w' r. write_test_file fresh ''test_calc.py'' (replicate 150 CHR ''#'') = Inr (w', r)"
    by (simp add: write_test_file_returns [OF plain_test_calc fresh_permits])
  from a obtain w1 r1 where a1: "write_code_file fresh ''calc.py'' [] = Inr (w1, r1)" by blast
  from b obtain w2 r2 where
    b1: "write_test_file fresh ''test_calc.py'' (replicate 150 CHR ''#'') = Inr (w2, r2)" by blast
  from content_preview_is_first_100_characters [OF disjI2, OF a1]
  have "r1 ''content_preview'' = Some []" by simp
  moreover from content_preview_is_first_100_characters [OF disjI1, OF b1]
  have "r2 ''content_preview'' = Some (replicate 100 CHR ''#'')" by simp
  ultimately show ?thesis using a1 b1 by auto
qed

text \<open>
  C10. Whenever \<open>write_test_file\<close> or \<open>write_code_file\<close> returns a result, the status
  of the result is \<open>"success"\<close>: the writers report no failure in the result.
\<close>

theorem writers_report_success:
  assumes "write_test_file w name content = Inr (w', r)
           \<or> write_code_file w name content = Inr (w', r)"
  shows "r ''status'' = Some ''success''"
proof -
  from assms obtain d where "write_in d w name content = Inr (w', r)"
    by (auto simp: write_test_file_eq write_code_file_eq)
  from write_in_result [OF this] show ?thesis by simp
qed

theorem writers_report_success_witness:
  "(\<exists>w' r. write_test_file fresh ''test_calc.py'' ''assert True'' = Inr (w', r)
       \<and> r ''status'' = Some ''success'')
   \<and> (\<exists>w' r. write_code_file used ''calc.py'' ''x = 1'' = Inr (w', r)
       \<and> r ''status'' = Some ''success'')"
proof -
  obtain w1 r1 where a: "write_test_file fresh ''test_calc.py'' ''assert True'' = Inr (w1, r1)"
    by (simp add: write_test_file_returns [OF plain_test_calc fresh_permits])
  obtain w2 r2 where b: "write_code_file used ''calc.py'' ''x = 1'' = Inr (w2, r2)"
    by (simp add: write_code_file_returns [OF plain_calc used_permits])
  from writers_report_success [OF disjI1, OF a] writers_report_success [OF disjI2, OF b] a b
  show ?thesis by blast
qed

text \<open>
  C8. The scenario of the specification: \<open>write_test_file("test_calc.py",
  "def test_x(): assert 1==1")\<close>, in a file system that lets the file be written,
  returns a result with the status \<open>"success"\<close>, a \<open>file_path\<close> that ends with
  \<open>test_calc.py\<close>, and a \<open>content_preview\<close> equal to the whole content, which has
  fewer than 100 characters.
\<close>

theorem write_test_file_test_calc_scenario:
  assumes "write_permitted TEST_BASE_DIR w ''test_calc.py'' ''def test_x(): assert 1==1''"
  shows "\<exists>w' r. write_test_file w ''test_calc.py'' ''def test_x(): assert 1==1'' = Inr (w', r)
           \<and> r ''status'' = Some ''success''
           \<and> r ''file_path'' = Some (''simulated_tests/'' @ ''test_calc.py'')
           \<and> r ''content_preview'' = Some ''def test_x(): assert 1==1''
           \<and> length ''def test_x(): assert 1==1'' < 100"
  by (simp add: write_test_file_returns [OF plain_test_calc assms] TEST_BASE_DIR_def)

theorem write_test_file_test_calc_scenario_witness:
  "\<exists>w' r. write_test_file fresh ''test_calc.py'' ''def test_x(): assert 1==1'' = Inr (w', r)
           \<and> r ''status'' = Some ''success''
           \<and> r ''file_path'' = Some ''simulated_tests/test_calc.py''
           \<and> r ''content_preview'' = Some ''def test_x(): assert 1==1''"
  using write_test_file_test_calc_scenario [OF fresh_permits] by simp






text \<open>
  C6. An IO error leaves the writers as an exception. When \<open>_ensure_dirs\<close> raises,
  both writers raise the same exception; when the directories are in place and opening
  the target file for writing raises, the writer raises the same exception. In neither
  case is there a result.
\<close>

theorem io_errors_propagate:
  "(ensure_dirs w = Inl e
      \<longrightarrow> write_test_file w name content = Inl e \<and> write_code_file w name content = Inl e)
   \<and> (ensure_dirs w = Inr w1 \<and> open_w w1 (path_join TEST_BASE_DIR name) = Inl e
      \<longrightarrow> write_test_file w name content = Inl e)
   \<and> (ensure_dirs w = Inr w1 \<and> open_w w1 (path_join CODE_BASE_DIR name) = Inl e
      \<longrightarrow> write_code_file w name content = Inl e)"
  unfolding write_test_file_eq write_code_file_eq
  by (intro conjI impI; (erule conjE)?; simp add: write_in_raises_ensure_dirs write_in_raises_open)

theorem io_errors_propagate_witness:
  "ensure_dirs locked = Inl PermissionError
   \<and> write_test_file locked ''calc.py'' ''x = 1'' = Inl PermissionError
   \<and> write_code_file locked ''calc.py'' ''x = 1'' = Inl PermissionError
   \<and> ensure_dirs guarded = Inr guarded
   \<and> open_w guarded (path_join TEST_BASE_DIR ''calc.py'') = Inl PermissionError
   \<and> write_test_file guarded ''calc.py'' ''x = 1'' = Inl PermissionError
   \<and> open_w guarded (path_join CODE_BASE_DIR ''calc.py'') = Inl PermissionError
   \<and> write_code_file guarded ''calc.py'' ''x = 1'' = Inl PermissionError"
  using io_errors_propagate [of locked PermissionError "''calc.py''" "''x = 1''"]
    io_errors_propagate [of guarded PermissionError "''calc.py''" "''x = 1''" guarded]
    ensure_dirs_locked ensure_dirs_guarded open_w_guarded
  by simp




section \<open>The shell wrapper\<close>


lemma text_of_None: "decode data = None \<Longrightarrow> text_of decode data = Inl UnicodeDecodeError"
  by (simp add: text_of_def)



text \<open>
  What \<open>subprocess.run\<close> raises by itself is not caught: only \<open>CalledProcessError\<close> is
  turned into a result. That holds for the exception of a shell that cannot be started,
  and for the \<open>UnicodeDecodeError\<close> of output that is not text, whatever the return code.
\<close>

lemma run_shell_command_raises:
  assumes "sh command = Inl e" and "\<not> is_CalledProcessError e"
  shows "run_shell_command signals decode sh command = Inl e"
  using assms by (cases e) (simp_all add: run_shell_command_def subprocess_run_def)












end
